theory Spec2Isabelle
  imports Complex_Main "HOL-Library.Sublist"
begin

section \<open>Data model\<close>

text \<open>
  The blind-test pipeline of \<^verbatim>\<open>src/blindtest\<close>: \<^verbatim>\<open>clipper.clip_videos\<close> cuts one excerpt
  per downloaded video, \<^verbatim>\<open>assembler.build_blindtest\<close> concatenates the excerpts with
  silent transitions, \<^verbatim>\<open>main.main\<close> runs both after the download stage and removes the
  temporary directories.

  Python floats are idealised as \<open>real\<close> (no rounding, no NaN). A \<^verbatim>\<open>pathlib.Path\<close> is
  the string it prints as.
\<close>

type_synonym path = string

type_synonym handle = nat

text \<open>\<^verbatim>\<open>video_sources.VideoClip\<close> (a dataclass).\<close>

record video_clip =
  video_id :: string
  title :: string
  url :: string
  file_path :: path

text \<open>
  The exceptions that can travel through the pipeline: the three classes the repository
  defines (each a \<^verbatim>\<open>RuntimeError\<close> carrying its message), and \<open>ExternalError\<close> for any
  exception raised inside moviepy or the operating system, which is none of the three.
\<close>

datatype exn =
    VideoRetrievalError string
  | ClipGenerationError string
  | AssemblyError string
  | ExternalError

text \<open>
  A moviepy clip object: the handle it holds, how it was made, and the two attributes the
  code reads (\<^verbatim>\<open>.duration\<close>, which may be \<^verbatim>\<open>None\<close>, and \<^verbatim>\<open>.size\<close>).
\<close>

datatype origin =
    AudioFile path
  | VideoFile path
  | Sub handle real real
  | SilentAudio
  | BlackFrames
  | Concatenated "handle list"

datatype clip =
  Clip (handle_of: handle) (origin_of: origin) (duration_of: "real option") (size_of: "nat \<times> nat")

text \<open>Every call that leaves the Python process, in the order it is made.\<close>

datatype event =
    EvMkdir path
  | EvOpenAudio path
  | EvOpenVideo path
  | EvSubclip handle real real
  | EvSilence real
  | EvColor "nat \<times> nat" real
  | EvConcatAudio "handle list"
  | EvConcatVideo "handle list"
  | EvWriteAudio handle path
  | EvWriteVideo handle path
  | EvClose handle
  | EvRmtree path

text \<open>
  The state outside the Python values: the paths that exist, the handles that are open,
  the next fresh handle, the number of samples taken from the random generator, and the
  calls made so far.
\<close>

record world =
  fs :: "path set"
  opened :: "handle set"
  next_handle :: handle
  draws :: nat
  trace :: "event list"

text \<open>
  What the code cannot decide by itself: whether moviepy can be imported, which calls of
  the media engine raise (a write may raise for one clip and not for another), what a
  media file reports as its duration and picture size, the samples of
  \<^verbatim>\<open>random.random()\<close>, and the paths \<^verbatim>\<open>shutil.rmtree\<close> cannot remove (a regular file, a
  symbolic link, an entry that may not be deleted).
\<close>

record engine =
  moviepy_installed :: bool
  open_fails :: "path \<Rightarrow> bool"
  media_duration :: "path \<Rightarrow> real option"
  media_size :: "path \<Rightarrow> nat \<times> nat"
  subclip_fails :: "clip \<Rightarrow> real \<Rightarrow> real \<Rightarrow> bool"
  write_fails :: "clip \<Rightarrow> path \<Rightarrow> bool"
  concat_fails :: "handle list \<Rightarrow> bool"
  random_sample :: "nat \<Rightarrow> real"
  rmtree_fails :: "path \<Rightarrow> bool"

section \<open>Paths\<close>

text \<open>
  \<^verbatim>\<open>Path.__truediv__\<close>: \<^verbatim>\<open>output_path / name\<close>, for a relative name. The way pathlib
  normalises redundant separators is not modelled.
\<close>

definition path_join :: "path \<Rightarrow> string \<Rightarrow> path" where
  "path_join d n = d @ ''/'' @ n"

text \<open>\<^verbatim>\<open>PurePath.name\<close>: the final component.\<close>

definition name_of :: "path \<Rightarrow> string" where
  "name_of p = rev (takeWhile (\<lambda>c. c \<noteq> CHR ''/'') (rev p))"

text \<open>
  \<^verbatim>\<open>PurePath.suffix\<close>: with \<^verbatim>\<open>i = name.rfind('.')\<close>, the suffix is \<^verbatim>\<open>name[i:]\<close> when
  \<^verbatim>\<open>0 < i < len(name) - 1\<close> and empty otherwise.
\<close>

definition suffix_of :: "path \<Rightarrow> string" where
  "suffix_of p =
     (let name = name_of p;
          ext = rev (takeWhile (\<lambda>c. c \<noteq> CHR ''.'') (rev name))
      in if CHR ''.'' \<in> set name \<and> length ext + 1 < length name \<and> ext \<noteq> []
         then CHR ''.'' # ext else [])"

text \<open>
  \<^verbatim>\<open>PurePath.with_suffix\<close>: the old suffix, if any, is cut off and the new one appended.
  (Python raises \<^verbatim>\<open>ValueError\<close> for a path with an empty name; the only path the code
  passes ends in \<^verbatim>\<open>_clip.mp4\<close>.)
\<close>

definition with_suffix :: "path \<Rightarrow> string \<Rightarrow> path" where
  "with_suffix p s = take (length p - length (suffix_of p)) p @ s"

text \<open>\<^verbatim>\<open>Path.mkdir(parents=True, exist_ok=True)\<close>; only the directory itself is tracked.\<close>

definition log :: "event \<Rightarrow> world \<Rightarrow> world" where
  "log e w = w\<lparr>trace := trace w @ [e]\<rparr>"

definition mkdir :: "path \<Rightarrow> world \<Rightarrow> world" where
  "mkdir p w = (let w1 = log (EvMkdir p) w in w1\<lparr>fs := insert p (fs w1)\<rparr>)"

text \<open>
  \<^verbatim>\<open>shutil.rmtree\<close>: the directory and everything below it disappear, or the call
  raises (\<^verbatim>\<open>NotADirectoryError\<close> on a regular file, \<^verbatim>\<open>OSError\<close> on a symbolic link,
  \<^verbatim>\<open>PermissionError\<close>) and, as for a path that is no directory, removes nothing.
\<close>

definition below :: "path \<Rightarrow> path \<Rightarrow> bool" where
  "below d p = (p = d \<or> prefix (d @ ''/'') p)"

definition rmtree :: "engine \<Rightarrow> path \<Rightarrow> world \<Rightarrow> (exn + unit) \<times> world" where
  "rmtree E d w =
     (let w1 = log (EvRmtree d) w in
      if rmtree_fails E d then (Inl ExternalError, w1)
      else (Inr (), w1\<lparr>fs := Set.filter (\<lambda>p. \<not> below d p) (fs w1)\<rparr>))"

section \<open>The media engine\<close>

text \<open>A new clip object takes the next fresh handle, which is open from then on.\<close>

definition new_clip :: "origin \<Rightarrow> real option \<Rightarrow> nat \<times> nat \<Rightarrow> world \<Rightarrow> clip \<times> world" where
  "new_clip og d sz w =
     (Clip (next_handle w) og d sz,
      w\<lparr>opened := insert (next_handle w) (opened w), next_handle := Suc (next_handle w)\<rparr>)"

definition AudioFileClip :: "engine \<Rightarrow> path \<Rightarrow> world \<Rightarrow> (exn + clip) \<times> world" where
  "AudioFileClip E p w =
     (let w1 = log (EvOpenAudio p) w in
      if open_fails E p then (Inl ExternalError, w1)
      else case new_clip (AudioFile p) (media_duration E p) (0, 0) w1 of
             (c, w2) \<Rightarrow> (Inr c, w2))"

definition VideoFileClip :: "engine \<Rightarrow> path \<Rightarrow> world \<Rightarrow> (exn + clip) \<times> world" where
  "VideoFileClip E p w =
     (let w1 = log (EvOpenVideo p) w in
      if open_fails E p then (Inl ExternalError, w1)
      else case new_clip (VideoFile p) (media_duration E p) (media_size E p) w1 of
             (c, w2) \<Rightarrow> (Inr c, w2))"

definition subclip :: "engine \<Rightarrow> clip \<Rightarrow> real \<Rightarrow> real \<Rightarrow> world \<Rightarrow> (exn + clip) \<times> world" where
  "subclip E c t_start t_end w =
     (let w1 = log (EvSubclip (handle_of c) t_start t_end) w in
      if subclip_fails E c t_start t_end then (Inl ExternalError, w1)
      else case new_clip (Sub (handle_of c) t_start t_end) (Some (t_end - t_start)) (size_of c) w1 of
             (s, w2) \<Rightarrow> (Inr s, w2))"

definition write_audiofile :: "engine \<Rightarrow> clip \<Rightarrow> path \<Rightarrow> world \<Rightarrow> (exn + unit) \<times> world" where
  "write_audiofile E c target w =
     (let w1 = log (EvWriteAudio (handle_of c) target) w in
      if write_fails E c target then (Inl ExternalError, w1)
      else (Inr (), w1\<lparr>fs := insert target (fs w1)\<rparr>))"

definition write_videofile :: "engine \<Rightarrow> clip \<Rightarrow> path \<Rightarrow> world \<Rightarrow> (exn + unit) \<times> world" where
  "write_videofile E c target w =
     (let w1 = log (EvWriteVideo (handle_of c) target) w in
      if write_fails E c target then (Inl ExternalError, w1)
      else (Inr (), w1\<lparr>fs := insert target (fs w1)\<rparr>))"

definition close :: "clip \<Rightarrow> world \<Rightarrow> world" where
  "close c w = (let w1 = log (EvClose (handle_of c)) w in w1\<lparr>opened := opened w1 - {handle_of c}\<rparr>)"

text \<open>
  \<^verbatim>\<open>random.uniform(a, b)\<close> is \<^verbatim>\<open>a + (b - a) * random()\<close>; each call consumes one sample
  of the generator.
\<close>

definition uniform :: "engine \<Rightarrow> real \<Rightarrow> real \<Rightarrow> world \<Rightarrow> real \<times> world" where
  "uniform E a b w = (a + (b - a) * random_sample E (draws w), w\<lparr>draws := Suc (draws w)\<rparr>)"

section \<open>clipper.py\<close>

text \<open>Lines 68 to 74 of \<^verbatim>\<open>clip_videos\<close>: the start offset of the excerpt.\<close>

definition choose_start :: "engine \<Rightarrow> real option \<Rightarrow> real \<Rightarrow> string \<Rightarrow> world \<Rightarrow> real \<times> world" where
  "choose_start E duration clip_duration start_strategy w =
     (case duration of
        None \<Rightarrow> (0, w)
      | Some d \<Rightarrow>
          if d < clip_duration then (0, w)
          else if start_strategy = ''random'' then uniform E 0 (max 0 (d - clip_duration)) w
          else (0, w))"

text \<open>Lines 77 and 79: the file the excerpt is written to.\<close>

definition target_path :: "path \<Rightarrow> bool \<Rightarrow> video_clip \<Rightarrow> path" where
  "target_path output_path audio_only clip =
     (let target = path_join output_path (video_id clip @ ''_clip.mp4'')
      in if audio_only then with_suffix target ''.mp3'' else target)"

text \<open>One turn of the loop of \<^verbatim>\<open>clip_videos\<close> (lines 62 to 86).\<close>

definition clip_iteration ::
  "engine \<Rightarrow> real \<Rightarrow> path \<Rightarrow> string \<Rightarrow> bool \<Rightarrow> video_clip \<Rightarrow> path list \<Rightarrow> world
     \<Rightarrow> (exn + path list) \<times> world" where
  "clip_iteration E clip_duration output_path start_strategy audio_only clip generated_files w =
     (let source_path = file_path clip in
      case (if audio_only then AudioFileClip E source_path w
            else VideoFileClip E source_path w) of
        (Inl e, w1) \<Rightarrow> (Inl e, w1)
      | (Inr media_clip, w1) \<Rightarrow>
          (case choose_start E (duration_of media_clip) clip_duration start_strategy w1 of
             (start, w2) \<Rightarrow>
               (case subclip E media_clip start (start + clip_duration) w2 of
                  (Inl e, w3) \<Rightarrow> (Inl e, w3)
                | (Inr sub, w3) \<Rightarrow>
                    (let target = target_path output_path audio_only clip in
                     case (if audio_only then write_audiofile E sub target w3
                           else write_videofile E sub target w3) of
                       (Inl e, w4) \<Rightarrow> (Inl e, w4)
                     | (Inr u, w4) \<Rightarrow>
                         (Inr (generated_files @ [target]),
                          close sub (close media_clip w4))))))"

fun clip_loop ::
  "engine \<Rightarrow> real \<Rightarrow> path \<Rightarrow> string \<Rightarrow> bool \<Rightarrow> video_clip list \<Rightarrow> path list \<Rightarrow> world
     \<Rightarrow> (exn + path list) \<times> world" where
  "clip_loop E clip_duration output_path start_strategy audio_only [] generated_files w =
     (Inr generated_files, w)"
| "clip_loop E clip_duration output_path start_strategy audio_only (clip # clips) generated_files w =
     (case clip_iteration E clip_duration output_path start_strategy audio_only clip generated_files w of
        (Inl e, w1) \<Rightarrow> (Inl e, w1)
      | (Inr generated_files1, w1) \<Rightarrow>
          clip_loop E clip_duration output_path start_strategy audio_only clips generated_files1 w1)"

text \<open>
  \<^verbatim>\<open>clip_videos\<close>. The call of \<^verbatim>\<open>_load_moviepy\<close> (line 54) is the second test: it
  raises \<^verbatim>\<open>ClipGenerationError\<close> when moviepy cannot be imported. \<^verbatim>\<open>Path(output_dir)\<close>
  is the path itself.
\<close>

definition clip_videos ::
  "engine \<Rightarrow> video_clip list \<Rightarrow> real \<Rightarrow> path \<Rightarrow> string \<Rightarrow> bool \<Rightarrow> world
     \<Rightarrow> (exn + path list) \<times> world" where
  "clip_videos E clips clip_duration output_dir start_strategy audio_only w =
     (if clip_duration \<le> 0 then
        (Inl (ClipGenerationError ''clip_duration must be a positive number''), w)
      else if \<not> moviepy_installed E then
        (Inl (ClipGenerationError
           ''moviepy is required to generate clips. Install it with 'pip install moviepy'.''), w)
      else
        (let output_path = output_dir;
             w1 = mkdir output_path w
         in clip_loop E clip_duration output_path start_strategy audio_only clips [] w1))"

section \<open>assembler.py\<close>

text \<open>
  The silent transition of the audio branch, \<^verbatim>\<open>AudioClip(lambda t: 0, duration=d)\<close>, and of
  the video branch, \<^verbatim>\<open>ColorClip(size, color=(0, 0, 0), duration=d)\<close> with a silent audio
  track set on it: each is one element of \<^verbatim>\<open>assembled_clips\<close> and is closed as one object.
\<close>

definition AudioClip :: "real \<Rightarrow> world \<Rightarrow> clip \<times> world" where
  "AudioClip d w = new_clip SilentAudio (Some d) (0, 0) (log (EvSilence d) w)"

definition ColorClip :: "nat \<times> nat \<Rightarrow> real \<Rightarrow> world \<Rightarrow> clip \<times> world" where
  "ColorClip sz d w = new_clip BlackFrames (Some d) sz (log (EvColor sz d) w)"

definition concatenate_audioclips :: "engine \<Rightarrow> clip list \<Rightarrow> world \<Rightarrow> (exn + clip) \<times> world" where
  "concatenate_audioclips E cs w =
     (let hs = map handle_of cs; w1 = log (EvConcatAudio hs) w in
      if concat_fails E hs then (Inl ExternalError, w1)
      else case new_clip (Concatenated hs) None (0, 0) w1 of (c, w2) \<Rightarrow> (Inr c, w2))"

definition concatenate_videoclips :: "engine \<Rightarrow> clip list \<Rightarrow> world \<Rightarrow> (exn + clip) \<times> world" where
  "concatenate_videoclips E cs w =
     (let hs = map handle_of cs; w1 = log (EvConcatVideo hs) w in
      if concat_fails E hs then (Inl ExternalError, w1)
      else case new_clip (Concatenated hs) None (0, 0) w1 of (c, w2) \<Rightarrow> (Inr c, w2))"

text \<open>\<^verbatim>\<open>Path.parent\<close>.\<close>

definition parent :: "path \<Rightarrow> path" where
  "parent p =
     (if CHR ''/'' \<in> set p then
        (let d = rev (tl (dropWhile (\<lambda>c. c \<noteq> CHR ''/'') (rev p)))
         in if d = [] then ''/'' else d)
      else ''.'')"

text \<open>
  One turn of the loop of \<^verbatim>\<open>build_blindtest\<close> (lines 64 to 78).
  \<^verbatim>\<open>if silence_duration:\<close> is the truth value of a float: any value other than zero.
\<close>

definition assemble_iteration ::
  "engine \<Rightarrow> real \<Rightarrow> bool \<Rightarrow> path \<Rightarrow> clip list \<Rightarrow> world \<Rightarrow> (exn + clip list) \<times> world" where
  "assemble_iteration E silence_duration audio_only clip_path assembled_clips w =
     (if audio_only then
        (case AudioFileClip E clip_path w of
           (Inl e, w1) \<Rightarrow> (Inl e, w1)
         | (Inr media_clip, w1) \<Rightarrow>
             (if silence_duration \<noteq> 0 then
                (case AudioClip silence_duration w1 of
                   (silence, w2) \<Rightarrow> (Inr (assembled_clips @ [media_clip] @ [silence]), w2))
              else (Inr (assembled_clips @ [media_clip]), w1)))
      else
        (case VideoFileClip E clip_path w of
           (Inl e, w1) \<Rightarrow> (Inl e, w1)
         | (Inr media_clip, w1) \<Rightarrow>
             (if silence_duration \<noteq> 0 then
                (case ColorClip (size_of media_clip) silence_duration w1 of
                   (silence, w2) \<Rightarrow> (Inr (assembled_clips @ [media_clip] @ [silence]), w2))
              else (Inr (assembled_clips @ [media_clip]), w1))))"

text \<open>The loop (line 63), from the empty list of line 61.\<close>

fun assemble_loop ::
  "engine \<Rightarrow> real \<Rightarrow> bool \<Rightarrow> path list \<Rightarrow> clip list \<Rightarrow> world \<Rightarrow> (exn + clip list) \<times> world" where
  "assemble_loop E silence_duration audio_only [] assembled_clips w = (Inr assembled_clips, w)"
| "assemble_loop E silence_duration audio_only (clip_path # clips) assembled_clips w =
     (case assemble_iteration E silence_duration audio_only clip_path assembled_clips w of
        (Inl e, w1) \<Rightarrow> (Inl e, w1)
      | (Inr assembled_clips1, w1) \<Rightarrow>
          assemble_loop E silence_duration audio_only clips assembled_clips1 w1)"

text \<open>Lines 80 to 85: concatenate, then write the single output file.\<close>

definition render :: "engine \<Rightarrow> bool \<Rightarrow> clip list \<Rightarrow> path \<Rightarrow> world \<Rightarrow> (exn + clip) \<times> world" where
  "render E audio_only assembled_clips output_path w =
     (if audio_only then
        (case concatenate_audioclips E assembled_clips w of
           (Inl e, w1) \<Rightarrow> (Inl e, w1)
         | (Inr final_clip, w1) \<Rightarrow>
             (case write_audiofile E final_clip output_path w1 of
                (Inl e, w2) \<Rightarrow> (Inl e, w2)
              | (Inr u, w2) \<Rightarrow> (Inr final_clip, w2)))
      else
        (case concatenate_videoclips E assembled_clips w of
           (Inl e, w1) \<Rightarrow> (Inl e, w1)
         | (Inr final_clip, w1) \<Rightarrow>
             (case write_videofile E final_clip output_path w1 of
                (Inl e, w2) \<Rightarrow> (Inl e, w2)
              | (Inr u, w2) \<Rightarrow> (Inr final_clip, w2))))"

text \<open>
  \<^verbatim>\<open>build_blindtest\<close>. The call of \<^verbatim>\<open>_load_moviepy\<close> (lines 51 to 58) is the third
  test: it raises \<^verbatim>\<open>AssemblyError\<close> when moviepy cannot be imported. The two closing
  steps (lines 87 to 90) come after the render and are reached only when it returns.
\<close>

definition build_blindtest ::
  "engine \<Rightarrow> path list \<Rightarrow> path \<Rightarrow> real \<Rightarrow> bool \<Rightarrow> world \<Rightarrow> (exn + path) \<times> world" where
  "build_blindtest E clips output_path silence_duration audio_only w =
     (if clips = [] then
        (Inl (AssemblyError ''No clips were provided for assembly''), w)
      else if silence_duration < 0 then
        (Inl (AssemblyError ''silence_duration must be zero or greater''), w)
      else if \<not> moviepy_installed E then
        (Inl (AssemblyError
           ''moviepy is required to assemble the blind test. Install it with 'pip install moviepy'.''), w)
      else
        (let w1 = mkdir (parent output_path) w in
         case assemble_loop E silence_duration audio_only clips [] w1 of
           (Inl e, w2) \<Rightarrow> (Inl e, w2)
         | (Inr assembled_clips, w2) \<Rightarrow>
             (case render E audio_only assembled_clips output_path w2 of
                (Inl e, w3) \<Rightarrow> (Inl e, w3)
              | (Inr final_clip, w3) \<Rightarrow>
                  (Inr output_path, close final_clip (fold close assembled_clips w3)))))"

section \<open>main.py\<close>

text \<open>The parsed command line (\<^verbatim>\<open>argparse.Namespace\<close>).\<close>

record args =
  args_query :: string
  args_max_results :: int
  args_clip_duration :: real
  args_output :: path
  args_downloads :: path
  args_clips :: path
  args_no_random :: bool
  args_audio_only :: bool
  args_silence_duration :: real

text \<open>
  \<^verbatim>\<open>fetch_video_clips(query, max_results, download_dir, randomize)\<close> talks to the network
  and to a downloader; \<^verbatim>\<open>main\<close> takes whatever it does: any change of the world, and a
  list of videos or any exception.
\<close>

type_synonym fetcher =
  "string \<Rightarrow> int \<Rightarrow> path \<Rightarrow> bool \<Rightarrow> world \<Rightarrow> (exn + video_clip list) \<times> world"

text \<open>The body of the \<^verbatim>\<open>try\<close> (lines 48 to 73); \<^verbatim>\<open>clip_videos\<close> gets its default strategy.\<close>

definition pipeline ::
  "fetcher \<Rightarrow> engine \<Rightarrow> args \<Rightarrow> path \<Rightarrow> path \<Rightarrow> world \<Rightarrow> (exn + int) \<times> world" where
  "pipeline fetch_video_clips E a download_dir clips_dir w =
     (case fetch_video_clips (args_query a) (args_max_results a) download_dir
             (\<not> args_no_random a) w of
        (Inl e, w1) \<Rightarrow> (Inl e, w1)
      | (Inr videos, w1) \<Rightarrow>
          (case clip_videos E videos (args_clip_duration a) clips_dir ''random''
                  (args_audio_only a) w1 of
             (Inl e, w2) \<Rightarrow> (Inl e, w2)
           | (Inr generated_clips, w2) \<Rightarrow>
               (case build_blindtest E generated_clips (args_output a)
                       (args_silence_duration a) (args_audio_only a) w2 of
                  (Inl e, w3) \<Rightarrow> (Inl e, w3)
                | (Inr p, w3) \<Rightarrow> (Inr 0, w3))))"

text \<open>\<^verbatim>\<open>except (VideoRetrievalError, ClipGenerationError, AssemblyError)\<close>.\<close>

fun caught :: "exn \<Rightarrow> bool" where
  "caught (VideoRetrievalError m) = True"
| "caught (ClipGenerationError m) = True"
| "caught (AssemblyError m) = True"
| "caught ExternalError = False"

text \<open>
  The \<^verbatim>\<open>finally\<close> block (lines 76 to 80): two guarded removals, one after the other.
  When the first \<^verbatim>\<open>shutil.rmtree\<close> raises, the second \<^verbatim>\<open>if\<close> is never reached.
\<close>

definition cleanup :: "engine \<Rightarrow> path \<Rightarrow> path \<Rightarrow> world \<Rightarrow> (exn + unit) \<times> world" where
  "cleanup E download_dir clips_dir w =
     (case (if download_dir \<in> fs w then rmtree E download_dir w else (Inr (), w)) of
        (Inl e, w1) \<Rightarrow> (Inl e, w1)
      | (Inr u, w1) \<Rightarrow>
          (if clips_dir \<in> fs w1 then rmtree E clips_dir w1 else (Inr (), w1)))"

text \<open>
  \<^verbatim>\<open>main\<close> from the parsed arguments on (\<^verbatim>\<open>parse_args\<close> runs before the \<^verbatim>\<open>try\<close>
  and before anything is created): \<open>Inr\<close> is the exit code returned, \<open>Inl\<close> an
  exception that leaves \<^verbatim>\<open>main\<close>. The \<^verbatim>\<open>finally\<close> block runs in every case, after
  the \<^verbatim>\<open>return\<close> or the \<^verbatim>\<open>except\<close> clause has fixed the outcome; an exception raised
  inside it replaces that outcome, as Python has it.
\<close>

definition main :: "fetcher \<Rightarrow> engine \<Rightarrow> args \<Rightarrow> world \<Rightarrow> (exn + int) \<times> world" where
  "main fetch_video_clips E a w =
     (let download_dir = args_downloads a;
          clips_dir = args_clips a
      in case pipeline fetch_video_clips E a download_dir clips_dir w of
           (r, w1) \<Rightarrow>
             (let outcome = (case r of
                               Inr code \<Rightarrow> Inr code
                             | Inl e \<Rightarrow> if caught e then Inr 1 else Inl e)
              in case cleanup E download_dir clips_dir w1 of
                   (Inl e, w2) \<Rightarrow> (Inl e, w2)
                 | (Inr u, w2) \<Rightarrow> (outcome, w2)))"

section \<open>Vocabulary of the properties\<close>

text \<open>Handles are handed out in increasing order: every open handle is below the next one.\<close>

definition wf :: "world \<Rightarrow> bool" where
  "wf w = (\<forall>h \<in> opened w. h < next_handle w)"

text \<open>A world in which nothing has happened yet.\<close>

definition initial_world :: "path set \<Rightarrow> world" where
  "initial_world paths = \<lparr>fs = paths, opened = {}, next_handle = 0, draws = 0, trace = []\<rparr>"

text \<open>The timeline the element list of \<^verbatim>\<open>assembled_clips\<close> stands for.\<close>

datatype segment = Content path | Silence real

fun segment_of :: "clip \<Rightarrow> segment option" where
  "segment_of (Clip h (AudioFile p) d sz) = Some (Content p)"
| "segment_of (Clip h (VideoFile p) d sz) = Some (Content p)"
| "segment_of (Clip h SilentAudio d sz) = map_option Silence d"
| "segment_of (Clip h BlackFrames d sz) = map_option Silence d"
| "segment_of (Clip h og d sz) = None"

text \<open>The source file of a content element; the silent elements; the content files in order.\<close>

fun source_paths :: "clip \<Rightarrow> path list" where
  "source_paths (Clip h (AudioFile p) d sz) = [p]"
| "source_paths (Clip h (VideoFile p) d sz) = [p]"
| "source_paths (Clip h og d sz) = []"

fun silence_clip :: "clip \<Rightarrow> bool" where
  "silence_clip (Clip h SilentAudio d sz) = True"
| "silence_clip (Clip h BlackFrames d sz) = True"
| "silence_clip (Clip h og d sz) = False"

definition content_clip :: "clip \<Rightarrow> bool" where
  "content_clip c = (source_paths c \<noteq> [])"

definition content_paths :: "clip list \<Rightarrow> path list" where
  "content_paths cs = concat (map source_paths cs)"

text \<open>
  The timeline as the specification words it, to compare the loop with: the excerpts in
  order, each followed by a silence of \<open>silence_duration\<close> (the last one too), and no
  silence at all when \<open>silence_duration\<close> is zero.
\<close>

definition spec_timeline :: "real \<Rightarrow> path list \<Rightarrow> segment list" where
  "spec_timeline silence_duration clips =
     (if silence_duration = 0 then map Content clips
      else concat (map (\<lambda>p. [Content p, Silence silence_duration]) clips))"





text \<open>An engine none of whose media calls raises.\<close>

definition engine_ok :: "engine \<Rightarrow> bool" where
  "engine_ok E =
     (moviepy_installed E \<and> (\<forall>p. \<not> open_fails E p) \<and> (\<forall>c a b. \<not> subclip_fails E c a b)
      \<and> (\<forall>c p. \<not> write_fails E c p) \<and> (\<forall>hs. \<not> concat_fails E hs))"

text \<open>\<^verbatim>\<open>random.random()\<close> returns a float in \<open>[0, 1)\<close>.\<close>

definition unit_samples :: "engine \<Rightarrow> bool" where
  "unit_samples E = (\<forall>k. 0 \<le> random_sample E k \<and> random_sample E k < 1)"

section \<open>Sample inputs\<close>

text \<open>
  An engine none of whose calls raises: every file lasts 20 seconds, every picture is
  640 by 480, the random generator always returns one half, and every directory can be
  removed.
\<close>

definition sample_engine :: engine where
  "sample_engine =
     \<lparr>moviepy_installed = True, open_fails = (\<lambda>p. False), media_duration = (\<lambda>p. Some 20),
      media_size = (\<lambda>p. (640, 480)), subclip_fails = (\<lambda>c a b. False),
      write_fails = (\<lambda>c p. False), concat_fails = (\<lambda>hs. False),
      random_sample = (\<lambda>k. 1 / 2), rmtree_fails = (\<lambda>p. False)\<rparr>"

text \<open>The same engine with a disk on which no file can be written.\<close>

definition full_disk_engine :: engine where
  "full_disk_engine = sample_engine\<lparr>write_fails := (\<lambda>c p. True)\<rparr>"

text \<open>The same engine for files that are only 4 seconds long.\<close>

definition short_media_engine :: engine where
  "short_media_engine = sample_engine\<lparr>media_duration := (\<lambda>p. Some 4)\<rparr>"

text \<open>
  Files of 4 seconds again, read by an engine that raises when it is asked to write a
  range that ends after the media does.
\<close>

definition strict_short_engine :: engine where
  "strict_short_engine =
     short_media_engine
       \<lparr>write_fails := (\<lambda>c p. case origin_of c of Sub h a b \<Rightarrow> 4 < b | _ \<Rightarrow> False)\<rparr>"

text \<open>The sample engine where the path \<^verbatim>\<open>downloads\<close> is a regular file, which
  \<^verbatim>\<open>shutil.rmtree\<close> refuses.\<close>

definition downloads_is_file_engine :: engine where
  "downloads_is_file_engine = sample_engine\<lparr>rmtree_fails := (\<lambda>p. p = ''downloads'')\<rparr>"

definition video_a :: video_clip where
  "video_a = \<lparr>video_id = ''abc123'', title = ''Song 1'',
     url = ''https://www.youtube.com/watch?v=abc123'', file_path = ''downloads/abc123.mp4''\<rparr>"

definition video_b :: video_clip where
  "video_b = \<lparr>video_id = ''def456'', title = ''Song 2'',
     url = ''https://www.youtube.com/watch?v=def456'', file_path = ''downloads/def456.mp4''\<rparr>"

text \<open>A download stage that delivers two videos, and one that finds none.\<close>

definition sample_fetch :: fetcher where
  "sample_fetch query max_results download_dir randomize w =
     (Inr [video_a, video_b],
      w\<lparr>fs := fs w \<union> {download_dir, path_join download_dir ''abc123.mp4'',
                        path_join download_dir ''def456.mp4''}\<rparr>)"

definition empty_fetch :: fetcher where
  "empty_fetch query max_results download_dir randomize w =
     (Inl (VideoRetrievalError ''No videos were returned by the YouTube API''), w)"

text \<open>The command line \<^verbatim>\<open>blindtest "rock"\<close> with every option at its default.\<close>

definition sample_args :: args where
  "sample_args =
     \<lparr>args_query = ''rock'', args_max_results = 5, args_clip_duration = 10,
      args_output = ''blindtest.mp4'', args_downloads = ''downloads'', args_clips = ''clips'',
      args_no_random = False, args_audio_only = False, args_silence_duration = 1\<rparr>"

section \<open>The start offset\<close>

lemma choose_start_not_random:
  "start_strategy \<noteq> ''random'' \<Longrightarrow> choose_start E duration clip_duration start_strategy w = (0, w)"
  by (simp add: choose_start_def split: option.splits)

lemma clip_iteration_not_random:
  "s1 \<noteq> ''random'' \<Longrightarrow> s2 \<noteq> ''random'' \<Longrightarrow>
   clip_iteration E cd out s1 ao clip gen w = clip_iteration E cd out s2 ao clip gen w"
  by (simp add: clip_iteration_def choose_start_not_random Let_def
        cong: prod.case_cong sum.case_cong if_cong)

lemma clip_loop_not_random:
  "s1 \<noteq> ''random'' \<Longrightarrow> s2 \<noteq> ''random'' \<Longrightarrow>
   clip_loop E cd out s1 ao clips gen w = clip_loop E cd out s2 ao clips gen w"
proof (induction clips arbitrary: gen w)
  case Nil
  show ?case by simp
next
  case (Cons c cs)
  have "clip_iteration E cd out s1 ao c gen w = clip_iteration E cd out s2 ao c gen w"
    using Cons.prems by (rule clip_iteration_not_random)
  then show ?case using Cons by (simp split: prod.splits sum.splits)
qed

text \<open>
  C4. With the \<^verbatim>\<open>"random"\<close> strategy and a total duration of at least
  \<^verbatim>\<open>clip_duration\<close>, the start offset is the next sample of the unit generator scaled to
  the length \<open>d - clip_duration\<close> (the uniform draw on that interval): it lies in
  \<open>[0, d - clip_duration]\<close>, so the excerpt never ends after the media does.
\<close>

theorem random_start_within_media:
  "unit_samples E \<Longrightarrow> clip_duration \<le> d \<Longrightarrow>
   choose_start E (Some d) clip_duration ''random'' w = (start, w') \<Longrightarrow>
   start = (d - clip_duration) * random_sample E (draws w) \<and> 0 \<le> start
   \<and> start \<le> d - clip_duration \<and> start + clip_duration \<le> d \<and> draws w' = Suc (draws w)"
proof -
  assume u: "unit_samples E" and le: "clip_duration \<le> d"
    and cs: "choose_start E (Some d) clip_duration ''random'' w = (start, w')"
  let ?u = "random_sample E (draws w)"
  have r: "0 \<le> ?u" "?u < 1" using u by (simp_all add: unit_samples_def)
  have s: "start = (d - clip_duration) * ?u" and dr: "draws w' = Suc (draws w)"
    using cs le by (auto simp: choose_start_def uniform_def max_def)
  have nn: "0 \<le> d - clip_duration" using le by simp
  have lo: "0 \<le> start" using s nn r by simp
  have "(d - clip_duration) * ?u \<le> (d - clip_duration) * 1"
    using nn r by (intro mult_left_mono) simp_all
  then have hi: "start \<le> d - clip_duration" using s by simp
  show ?thesis using s lo hi dr by simp
qed

theorem random_start_within_media_witness:
  "unit_samples sample_engine \<and> (10::real) \<le> 20
   \<and> choose_start sample_engine (Some 20) 10 ''random'' (initial_world {})
       = (5, (initial_world {})\<lparr>draws := 1\<rparr>)
   \<and> (5::real) = (20 - 10) * random_sample sample_engine (draws (initial_world {}))
   \<and> (5::real) + 10 \<le> 20"
proof -
  have u: "unit_samples sample_engine"
    by (simp add: unit_samples_def sample_engine_def)
  have cs: "choose_start sample_engine (Some 20) 10 ''random'' (initial_world {})
              = (5, (initial_world {})\<lparr>draws := 1\<rparr>)"
    by (simp add: choose_start_def uniform_def sample_engine_def initial_world_def)
  have le: "(10::real) \<le> 20" by simp
  show ?thesis
    using u le cs random_start_within_media [OF u le cs] by blast
qed

text \<open>
  C10. Every strategy name other than \<^verbatim>\<open>"random"\<close>, recognised or not, gives start offset
  0 for a media file at least as long as the excerpt, and \<^verbatim>\<open>clip_videos\<close> does with it
  exactly what it does with \<^verbatim>\<open>"start"\<close>: the name is never validated.
\<close>

theorem unknown_strategy_is_start:
  "start_strategy \<noteq> ''random'' \<Longrightarrow> clip_duration \<le> d \<Longrightarrow>
   choose_start E (Some d) clip_duration start_strategy w = (0, w)
   \<and> choose_start E (Some d) clip_duration start_strategy w
       = choose_start E (Some d) clip_duration ''start'' w
   \<and> clip_videos E clips clip_duration output_dir start_strategy audio_only w =
       clip_videos E clips clip_duration output_dir ''start'' audio_only w"
  using clip_loop_not_random [of start_strategy "''start''"]
  by (simp add: choose_start_not_random clip_videos_def)

theorem unknown_strategy_is_start_witness:
  "''middle'' \<noteq> ''random'' \<and> (10::real) \<le> 20
   \<and> choose_start sample_engine (Some 20) 10 ''middle'' (initial_world {}) = (0, initial_world {})
   \<and> clip_videos sample_engine [video_a] 10 ''clips'' ''middle'' False (initial_world {}) =
       clip_videos sample_engine [video_a] 10 ''clips'' ''start'' False (initial_world {})"
  using unknown_strategy_is_start [of "''middle''" 10 20 sample_engine "initial_world {}"
      "[video_a]" "''clips''" False]
  by simp

section \<open>Parameter checks\<close>

text \<open>
  C6. A \<^verbatim>\<open>clip_duration\<close> of zero or less makes \<^verbatim>\<open>clip_videos\<close> raise its parameter
  error (\<^verbatim>\<open>ClipGenerationError("clip_duration must be a positive number")\<close>) with the
  world untouched: no call is made, no file is opened, no directory is created, nothing
  is written.
\<close>

theorem clip_videos_rejects_nonpositive_duration:
  "clip_duration \<le> 0 \<Longrightarrow>
   clip_videos E clips clip_duration output_dir start_strategy audio_only w =
     (Inl (ClipGenerationError ''clip_duration must be a positive number''), w)"
  by (simp add: clip_videos_def)

theorem clip_videos_rejects_nonpositive_duration_witness:
  "(- 3::real) \<le> 0
   \<and> clip_videos sample_engine [video_a, video_b] (- 3) ''clips'' ''random'' False (initial_world {})
       = (Inl (ClipGenerationError ''clip_duration must be a positive number''), initial_world {})"
  using clip_videos_rejects_nonpositive_duration
    [of "- 3" sample_engine "[video_a, video_b]" "''clips''" "''random''" False "initial_world {}"]
  by simp

text \<open>
  C7. \<^verbatim>\<open>build_blindtest\<close> with no clips raises its empty-input error
  (\<^verbatim>\<open>AssemblyError("No clips were provided for assembly")\<close>), and with a negative
  \<^verbatim>\<open>silence_duration\<close> its parameter error; in both cases the world is untouched: no
  directory is created, nothing is opened, concatenated or written.
\<close>

theorem build_blindtest_rejects_bad_input:
  "build_blindtest E [] output_path silence_duration audio_only w
     = (Inl (AssemblyError ''No clips were provided for assembly''), w)
   \<and> (clips \<noteq> [] \<longrightarrow> silence_duration < 0 \<longrightarrow>
        build_blindtest E clips output_path silence_duration audio_only w
          = (Inl (AssemblyError ''silence_duration must be zero or greater''), w))"
  by (simp add: build_blindtest_def)

theorem build_blindtest_rejects_bad_input_witness:
  "build_blindtest sample_engine [] ''blindtest.mp4'' 1 False (initial_world {})
     = (Inl (AssemblyError ''No clips were provided for assembly''), initial_world {})
   \<and> [''clips/abc123_clip.mp4''] \<noteq> [] \<and> (- 1::real) < 0
   \<and> build_blindtest sample_engine [''clips/abc123_clip.mp4''] ''blindtest.mp4'' (- 1) False
         (initial_world {})
       = (Inl (AssemblyError ''silence_duration must be zero or greater''), initial_world {})"
  using build_blindtest_rejects_bad_input
      [of sample_engine "''blindtest.mp4''" 1 False "initial_world {}"]
    build_blindtest_rejects_bad_input
      [of sample_engine "''blindtest.mp4''" "- 1" False "initial_world {}"
          "[''clips/abc123_clip.mp4'']"]
  by simp

section \<open>The excerpt loop\<close>

lemmas engine_defs = AudioFileClip_def VideoFileClip_def AudioClip_def ColorClip_def
  new_clip_def log_def Let_def

lemmas run_defs = clip_videos_def clip_iteration_def choose_start_def uniform_def subclip_def
  write_audiofile_def write_videofile_def close_def mkdir_def
  build_blindtest_def assemble_iteration_def render_def concatenate_audioclips_def
  concatenate_videoclips_def engine_defs

lemmas sample_defs = sample_engine_def full_disk_engine_def short_media_engine_def
  strict_short_engine_def downloads_is_file_engine_def
  video_a_def video_b_def initial_world_def

lemma choose_start_short:
  "duration = None \<or> (\<exists>d. duration = Some d \<and> d < clip_duration) \<Longrightarrow>
   choose_start E duration clip_duration start_strategy w = (0, w)"
  by (auto simp: choose_start_def)

lemma clip_iteration_ok:
  "engine_ok E \<Longrightarrow>
   fst (clip_iteration E cd out strat ao clip gen w) = Inr (gen @ [target_path out ao clip])"
  by (simp add: clip_iteration_def engine_ok_def AudioFileClip_def VideoFileClip_def subclip_def
        write_audiofile_def write_videofile_def new_clip_def Let_def split: prod.splits)

lemma clip_iteration_result:
  "clip_iteration E cd out strat ao clip gen w = (Inr files, w') \<Longrightarrow>
   files = gen @ [target_path out ao clip]"
  by (auto simp: clip_iteration_def Let_def split: prod.splits sum.splits if_splits)

lemma clip_loop_result:
  "clip_loop E cd out strat ao clips gen w = (Inr files, w') \<Longrightarrow>
   files = gen @ map (target_path out ao) clips"
proof (induction clips arbitrary: gen w)
  case Nil
  then show ?case by simp
next
  case (Cons c cs)
  from Cons.prems obtain g1 w1 where
    it: "clip_iteration E cd out strat ao c gen w = (Inr g1, w1)" and
    lp: "clip_loop E cd out strat ao cs g1 w1 = (Inr files, w')"
    by (auto split: prod.splits sum.splits)
  from it have "g1 = gen @ [target_path out ao c]" by (rule clip_iteration_result)
  with Cons.IH [OF lp] show ?case by simp
qed

lemma clip_videos_result:
  "clip_videos E clips cd out strat ao w = (Inr files, w') \<Longrightarrow>
   files = map (target_path out ao) clips"
  using clip_loop_result [of E cd out strat ao clips "[]" "mkdir out w" files w']
  by (simp add: clip_videos_def Let_def split: if_splits)

lemma clip_loop_ok:
  "engine_ok E \<Longrightarrow>
   fst (clip_loop E cd out strat ao clips gen w) = Inr (gen @ map (target_path out ao) clips)"
proof (induction clips arbitrary: gen w)
  case Nil
  show ?case by simp
next
  case (Cons c cs)
  obtain r w1 where it: "clip_iteration E cd out strat ao c gen w = (r, w1)"
    by (cases "clip_iteration E cd out strat ao c gen w")
  with clip_iteration_ok [OF Cons.prems, of cd out strat ao c gen w]
  have r: "r = Inr (gen @ [target_path out ao c])" by simp
  show ?case using it r Cons.IH [OF Cons.prems, of "gen @ [target_path out ao c]" w1] by simp
qed

lemma clip_videos_ok:
  "engine_ok E \<Longrightarrow> 0 < cd \<Longrightarrow>
   fst (clip_videos E clips cd out strat ao w) = Inr (map (target_path out ao) clips)"
  using clip_loop_ok [of E cd out strat ao clips "[]" "mkdir out w"]
  by (simp add: clip_videos_def engine_ok_def Let_def)

subsection \<open>File names\<close>

lemma take_stem: "take (length (xs @ ys) - length ys) (xs @ ys) = xs"
  by simp

lemma with_suffix_clip_mp4:
  "with_suffix (path_join d (v @ ''_clip.mp4'')) ''.mp3'' = path_join d (v @ ''_clip.mp3'')"
proof -
  let ?p = "path_join d (v @ ''_clip.mp4'')"
  let ?stem = "rev (takeWhile (\<lambda>c. c \<noteq> CHR ''/'') (rev v))"
  have "rev ?p = (''4pm.pilc_'' @ rev v) @ CHR ''/'' # rev d"
    by (simp add: path_join_def)
  then have "takeWhile (\<lambda>c. c \<noteq> CHR ''/'') (rev ?p)
               = takeWhile (\<lambda>c. c \<noteq> CHR ''/'') (''4pm.pilc_'' @ rev v)"
    by (simp only: takeWhile_tail simp_thms)
  also have "\<dots> = ''4pm.pilc_'' @ takeWhile (\<lambda>c. c \<noteq> CHR ''/'') (rev v)"
    by simp
  finally have name: "name_of ?p = ?stem @ ''_clip.mp4''"
    by (simp add: name_of_def)
  have ext: "rev (takeWhile (\<lambda>c. c \<noteq> CHR ''.'') (rev (?stem @ ''_clip.mp4''))) = ''mp4''"
    by simp
  have suf: "suffix_of ?p = ''.mp4''"
    unfolding suffix_of_def name Let_def ext by simp
  have p: "?p = (d @ ''/'' @ v @ ''_clip'') @ ''.mp4''"
    by (simp add: path_join_def)
  have "take (length ?p - length ''.mp4'') ?p = d @ ''/'' @ v @ ''_clip''"
    unfolding p by (rule take_stem)
  then have "with_suffix ?p ''.mp3'' = (d @ ''/'' @ v @ ''_clip'') @ ''.mp3''"
    unfolding with_suffix_def suf by simp
  then show ?thesis
    by (simp add: path_join_def)
qed

lemma target_path_eq:
  "target_path out ao clip =
     path_join out (video_id clip @ (if ao then ''_clip.mp3'' else ''_clip.mp4''))"
  by (simp add: target_path_def with_suffix_clip_mp4)

text \<open>
  What a turn of the loop does with a media file whose duration is unknown or shorter
  than \<^verbatim>\<open>clip_duration\<close>: the source clip it opens, the excerpt it asks for, and the
  outcome, which is the engine's to decide.
\<close>

lemma clip_iteration_short_outcome:
  assumes "media_duration E (file_path clip) = None
           \<or> (\<exists>d. media_duration E (file_path clip) = Some d \<and> d < cd)"
  shows "fst (clip_iteration E cd out strat ao clip gen w) =
     (let media_clip = Clip (next_handle w)
                         (if ao then AudioFile (file_path clip) else VideoFile (file_path clip))
                         (media_duration E (file_path clip))
                         (if ao then (0, 0) else media_size E (file_path clip));
          sub = Clip (Suc (next_handle w)) (Sub (next_handle w) 0 cd) (Some cd)
                  (size_of media_clip)
      in if open_fails E (file_path clip) \<or> subclip_fails E media_clip 0 cd
            \<or> write_fails E sub (target_path out ao clip)
         then Inl ExternalError
         else Inr (gen @ [target_path out ao clip]))"
  using assms
  by (auto simp: clip_iteration_def AudioFileClip_def VideoFileClip_def subclip_def
        write_audiofile_def write_videofile_def new_clip_def Let_def log_def close_def
        choose_start_def)

lemma clip_iteration_short_request:
  assumes "media_duration E (file_path clip) = None
           \<or> (\<exists>d. media_duration E (file_path clip) = Some d \<and> d < cd)"
    and "\<not> open_fails E (file_path clip)"
  shows "EvSubclip (next_handle w) 0 cd
           \<in> set (trace (snd (clip_iteration E cd out strat ao clip gen w)))"
  using assms
  by (auto simp: clip_iteration_def AudioFileClip_def VideoFileClip_def subclip_def
        write_audiofile_def write_videofile_def new_clip_def Let_def log_def close_def
        choose_start_def)

text \<open>
  C5 as the specification states it fails: for a file shorter than \<^verbatim>\<open>clip_duration\<close> the
  start offset is 0, but the range asked for still ends at \<^verbatim>\<open>clip_duration\<close>, after the
  end of the media. With files of 4 seconds, an excerpt of 10 seconds and an engine that
  raises when it has to write past the end of the media, the first item raises at its
  write, the call is aborted and the second item is never opened.
\<close>

theorem short_media_aborts_when_engine_refuses_range:
  "media_duration strict_short_engine (file_path video_a) = Some 4
   \<and> fst (clip_videos strict_short_engine [video_a, video_b] 10 ''clips'' ''random'' False
            (initial_world {})) = Inl ExternalError
   \<and> trace (snd (clip_videos strict_short_engine [video_a, video_b] 10 ''clips'' ''random'' False
                    (initial_world {})))
       = [EvMkdir ''clips'', EvOpenVideo ''downloads/abc123.mp4'', EvSubclip 0 0 10,
          EvWriteVideo 1 ''clips/abc123_clip.mp4'']"
  by (simp add: run_defs sample_defs target_path_eq path_join_def)

text \<open>
  C5, amended. A media file whose duration is unknown or shorter than \<^verbatim>\<open>clip_duration\<close>
  gets start offset 0 under every strategy, without a random draw, and \<^verbatim>\<open>clip_videos\<close>
  raises no error of its own for it: once the file is open the turn asks the engine for
  the range from 0 to \<^verbatim>\<open>clip_duration\<close>, not clamped to the end of the media, and it hands
  the excerpt file on exactly when the engine's open, subclip and write calls succeed;
  otherwise the engine's exception leaves the call.
\<close>

theorem short_or_unknown_media_starts_at_zero:
  assumes "media_duration E (file_path clip) = None
           \<or> (\<exists>d. media_duration E (file_path clip) = Some d \<and> d < clip_duration)"
  shows "choose_start E (media_duration E (file_path clip)) clip_duration start_strategy w = (0, w)
    \<and> (\<not> open_fails E (file_path clip) \<longrightarrow>
         EvSubclip (next_handle w) 0 clip_duration
           \<in> set (trace (snd (clip_iteration E clip_duration output_path start_strategy
                                audio_only clip generated_files w))))
    \<and> fst (clip_iteration E clip_duration output_path start_strategy audio_only clip
              generated_files w) =
        (let media_clip = Clip (next_handle w)
                            (if audio_only then AudioFile (file_path clip)
                             else VideoFile (file_path clip))
                            (media_duration E (file_path clip))
                            (if audio_only then (0, 0) else media_size E (file_path clip));
             sub = Clip (Suc (next_handle w)) (Sub (next_handle w) 0 clip_duration)
                     (Some clip_duration) (size_of media_clip)
         in if open_fails E (file_path clip) \<or> subclip_fails E media_clip 0 clip_duration
               \<or> write_fails E sub (target_path output_path audio_only clip)
            then Inl ExternalError
            else Inr (generated_files @ [target_path output_path audio_only clip]))"
proof (intro conjI impI)
  show "choose_start E (media_duration E (file_path clip)) clip_duration start_strategy w = (0, w)"
    using assms by (rule choose_start_short)
next
  assume "\<not> open_fails E (file_path clip)"
  with assms show "EvSubclip (next_handle w) 0 clip_duration
           \<in> set (trace (snd (clip_iteration E clip_duration output_path start_strategy
                                audio_only clip generated_files w)))"
    by (rule clip_iteration_short_request)
next
  show "fst (clip_iteration E clip_duration output_path start_strategy audio_only clip
              generated_files w) =
        (let media_clip = Clip (next_handle w)
                            (if audio_only then AudioFile (file_path clip)
                             else VideoFile (file_path clip))
                            (media_duration E (file_path clip))
                            (if audio_only then (0, 0) else media_size E (file_path clip));
             sub = Clip (Suc (next_handle w)) (Sub (next_handle w) 0 clip_duration)
                     (Some clip_duration) (size_of media_clip)
         in if open_fails E (file_path clip) \<or> subclip_fails E media_clip 0 clip_duration
               \<or> write_fails E sub (target_path output_path audio_only clip)
            then Inl ExternalError
            else Inr (generated_files @ [target_path output_path audio_only clip]))"
    using assms by (rule clip_iteration_short_outcome)
qed

theorem short_or_unknown_media_starts_at_zero_witness:
  "media_duration short_media_engine (file_path video_a) = Some 4 \<and> (4::real) < 10
   \<and> \<not> open_fails short_media_engine (file_path video_a)
   \<and> choose_start short_media_engine (media_duration short_media_engine (file_path video_a)) 10
        ''random'' (initial_world {}) = (0, initial_world {})
   \<and> EvSubclip 0 0 10
        \<in> set (trace (snd (clip_iteration short_media_engine 10 ''clips'' ''random'' False video_a
                             [] (initial_world {}))))
   \<and> fst (clip_iteration short_media_engine 10 ''clips'' ''random'' False video_a []
            (initial_world {})) = Inr [''clips/abc123_clip.mp4'']
   \<and> fst (clip_iteration strict_short_engine 10 ''clips'' ''random'' False video_a []
            (initial_world {})) = Inl ExternalError"
proof -
  have d: "media_duration short_media_engine (file_path video_a) = Some 4"
    by (simp add: sample_defs)
  have h: "media_duration short_media_engine (file_path video_a) = None
           \<or> (\<exists>d. media_duration short_media_engine (file_path video_a) = Some d \<and> d < 10)"
    by (simp add: sample_defs)
  have hs: "media_duration strict_short_engine (file_path video_a) = None
           \<or> (\<exists>d. media_duration strict_short_engine (file_path video_a) = Some d \<and> d < 10)"
    by (simp add: sample_defs)
  have o: "\<not> open_fails short_media_engine (file_path video_a)"
    by (simp add: sample_defs)
  have t: "target_path ''clips'' False video_a = ''clips/abc123_clip.mp4''"
    by (simp add: target_path_eq path_join_def sample_defs)
  have n: "next_handle (initial_world {}) = 0"
    by (simp add: sample_defs)
  have e: "\<not> open_fails short_media_engine p" "\<not> subclip_fails short_media_engine c a b"
    "\<not> write_fails short_media_engine c p" for p c a b
    by (simp_all add: sample_defs)
  have es: "\<not> open_fails strict_short_engine p" "\<not> subclip_fails strict_short_engine c a b"
    "write_fails strict_short_engine (Clip k (Sub j 0 10) x y) p" for p c a b k j x y
    by (simp_all add: sample_defs)
  note inst = short_or_unknown_media_starts_at_zero
    [OF h, of "''random''" "initial_world {}" "''clips''" False "[]"]
  note inst_strict = short_or_unknown_media_starts_at_zero
    [OF hs, of "''random''" "initial_world {}" "''clips''" False "[]"]
  from inst have 1: "choose_start short_media_engine
      (media_duration short_media_engine (file_path video_a)) 10 ''random'' (initial_world {})
        = (0, initial_world {})"
    by blast
  from inst o have 2: "EvSubclip 0 0 10
        \<in> set (trace (snd (clip_iteration short_media_engine 10 ''clips'' ''random'' False video_a
                             [] (initial_world {}))))"
    by (simp add: n)
  from inst have 3: "fst (clip_iteration short_media_engine 10 ''clips'' ''random'' False video_a []
            (initial_world {})) = Inr [''clips/abc123_clip.mp4'']"
    by (simp add: e t Let_def)
  from inst_strict have 4: "fst (clip_iteration strict_short_engine 10 ''clips'' ''random'' False
      video_a [] (initial_world {})) = Inl ExternalError"
    by (simp add: es Let_def)
  show ?thesis using d o 1 2 3 4 by simp
qed

section \<open>The assembly loop\<close>

lemma spec_timeline_Cons:
  "spec_timeline sd (p # ps) = spec_timeline sd [p] @ spec_timeline sd ps"
  by (simp add: spec_timeline_def)

lemma content_paths_append: "content_paths (xs @ ys) = content_paths xs @ content_paths ys"
  by (simp add: content_paths_def)

text \<open>What one turn of the loop adds to \<^verbatim>\<open>assembled_clips\<close> and to the open handles.\<close>

lemma assemble_iteration_adds:
  "assemble_iteration E sd ao p acc w = (Inr assembled, w') \<Longrightarrow>
   \<exists>new. assembled = acc @ new
     \<and> map segment_of new = map Some (spec_timeline sd [p])
     \<and> content_paths new = [p]
     \<and> length (filter content_clip new) = 1
     \<and> length (filter silence_clip new) = (if sd = 0 then 0 else 1)
     \<and> opened w' = opened w \<union> handle_of ` set new
     \<and> (\<forall>c \<in> set new. next_handle w \<le> handle_of c)
     \<and> next_handle w \<le> next_handle w'"
  by (auto simp: assemble_iteration_def engine_defs spec_timeline_def content_paths_def
        content_clip_def split: if_splits)

lemma assemble_loop_adds:
  "assemble_loop E sd ao clips acc w = (Inr assembled, w') \<Longrightarrow>
   \<exists>new. assembled = acc @ new
     \<and> map segment_of new = map Some (spec_timeline sd clips)
     \<and> content_paths new = clips
     \<and> length (filter content_clip new) = length clips
     \<and> length (filter silence_clip new) = (if sd = 0 then 0 else length clips)
     \<and> opened w' = opened w \<union> handle_of ` set new
     \<and> (\<forall>c \<in> set new. next_handle w \<le> handle_of c)
     \<and> next_handle w \<le> next_handle w'"
proof (induction clips arbitrary: acc w)
  case Nil
  then show ?case by (simp add: spec_timeline_def content_paths_def)
next
  case (Cons p ps)
  from Cons.prems obtain a1 w1 where
    it: "assemble_iteration E sd ao p acc w = (Inr a1, w1)" and
    lp: "assemble_loop E sd ao ps a1 w1 = (Inr assembled, w')"
    by (auto split: prod.splits sum.splits)
  from assemble_iteration_adds [OF it] obtain n1 where
    a1: "a1 = acc @ n1" and
    s1: "map segment_of n1 = map Some (spec_timeline sd [p])" and
    p1: "content_paths n1 = [p]" and
    c1: "length (filter content_clip n1) = 1" and
    q1: "length (filter silence_clip n1) = (if sd = 0 then 0 else 1)" and
    o1: "opened w1 = opened w \<union> handle_of ` set n1" and
    h1: "\<forall>c \<in> set n1. next_handle w \<le> handle_of c" and
    x1: "next_handle w \<le> next_handle w1"
    by blast
  from Cons.IH [OF lp] obtain n2 where
    a2: "assembled = a1 @ n2" and
    s2: "map segment_of n2 = map Some (spec_timeline sd ps)" and
    p2: "content_paths n2 = ps" and
    c2: "length (filter content_clip n2) = length ps" and
    q2: "length (filter silence_clip n2) = (if sd = 0 then 0 else length ps)" and
    o2: "opened w' = opened w1 \<union> handle_of ` set n2" and
    h2: "\<forall>c \<in> set n2. next_handle w1 \<le> handle_of c" and
    x2: "next_handle w1 \<le> next_handle w'"
    by blast
  have "assembled = acc @ (n1 @ n2)" using a1 a2 by simp
  moreover have "map segment_of (n1 @ n2) = map Some (spec_timeline sd (p # ps))"
    using s1 s2 by (simp add: spec_timeline_Cons [of sd p ps])
  moreover have "content_paths (n1 @ n2) = p # ps"
    using p1 p2 by (simp add: content_paths_append)
  moreover have "length (filter content_clip (n1 @ n2)) = length (p # ps)"
    using c1 c2 by simp
  moreover have "length (filter silence_clip (n1 @ n2)) = (if sd = 0 then 0 else length (p # ps))"
    using q1 q2 by simp
  moreover have "opened w' = opened w \<union> handle_of ` set (n1 @ n2)"
    using o1 o2 by auto
  moreover have "\<forall>c \<in> set (n1 @ n2). next_handle w \<le> handle_of c"
    using h1 h2 x1 by fastforce
  moreover have "next_handle w \<le> next_handle w'"
    using x1 x2 by simp
  ultimately show ?case by blast
qed

text \<open>The loop returns a list whenever every excerpt file can be opened.\<close>

lemma assemble_iteration_ok:
  "\<not> open_fails E p \<Longrightarrow> \<exists>assembled. fst (assemble_iteration E sd ao p acc w) = Inr assembled"
  by (simp add: assemble_iteration_def engine_defs)

lemma assemble_loop_ok:
  "\<forall>p \<in> set clips. \<not> open_fails E p \<Longrightarrow>
   \<exists>assembled. fst (assemble_loop E sd ao clips acc w) = Inr assembled"
proof (induction clips arbitrary: acc w)
  case Nil
  show ?case by simp
next
  case (Cons p ps)
  from Cons.prems have "\<not> open_fails E p" by simp
  from assemble_iteration_ok [OF this, of sd ao acc w] obtain a1 where
    "fst (assemble_iteration E sd ao p acc w) = Inr a1" by blast
  then obtain w1 where it: "assemble_iteration E sd ao p acc w = (Inr a1, w1)"
    by (cases "assemble_iteration E sd ao p acc w") simp
  from Cons.prems have "\<forall>p \<in> set ps. \<not> open_fails E p" by simp
  from Cons.IH [OF this, of a1 w1] show ?case using it by simp
qed

text \<open>
  C2. The list the loop of \<^verbatim>\<open>build_blindtest\<close> builds (the loop runs for a non-empty
  list and a \<^verbatim>\<open>silence_duration\<close> of zero or more) is the timeline of the
  specification: with \<^verbatim>\<open>silence_duration = 0\<close> one content element per excerpt and no
  silence; with \<^verbatim>\<open>silence_duration > 0\<close> every excerpt followed by one silence of that
  length, the last excerpt too, so as many silences as excerpts.
\<close>

theorem assembled_clips_is_timeline:
  assumes "clips \<noteq> []" and "0 \<le> silence_duration"
    and "assemble_loop E silence_duration audio_only clips [] w = (Inr assembled, w')"
  shows "map segment_of assembled = map Some (spec_timeline silence_duration clips)
    \<and> length (filter content_clip assembled) = length clips
    \<and> (silence_duration = 0 \<longrightarrow>
         filter silence_clip assembled = [] \<and> length assembled = length clips
         \<and> map segment_of assembled = map (\<lambda>p. Some (Content p)) clips)
    \<and> (0 < silence_duration \<longrightarrow>
         length (filter silence_clip assembled) = length clips
         \<and> length assembled = 2 * length clips
         \<and> (\<forall>i < length clips.
               segment_of (assembled ! (2 * i)) = Some (Content (clips ! i))
               \<and> segment_of (assembled ! (2 * i + 1)) = Some (Silence silence_duration)))"
proof -
  from assemble_loop_adds [OF assms(3)] have
    seg: "map segment_of assembled = map Some (spec_timeline silence_duration clips)" and
    cnt: "length (filter content_clip assembled) = length clips" and
    sil: "length (filter silence_clip assembled)
            = (if silence_duration = 0 then 0 else length clips)"
    by auto
  have len: "length assembled = length (spec_timeline silence_duration clips)"
    using seg by (metis length_map)
  have zero: "silence_duration = 0 \<Longrightarrow>
      filter silence_clip assembled = [] \<and> length assembled = length clips
      \<and> map segment_of assembled = map (\<lambda>p. Some (Content p)) clips"
    using seg sil len by (simp add: spec_timeline_def)
  have inter: "length (concat (map (\<lambda>p. [Content p, Silence d]) ps)) = 2 * length ps
      \<and> (\<forall>i < length ps.
            concat (map (\<lambda>p. [Content p, Silence d]) ps) ! (2 * i) = Content (ps ! i)
            \<and> concat (map (\<lambda>p. [Content p, Silence d]) ps) ! (2 * i + 1) = Silence d)"
    for d :: real and ps :: "path list"
  proof (induction ps)
    case Nil
    show ?case by simp
  next
    case (Cons q qs)
    show ?case
    proof (intro conjI allI impI)
      show "length (concat (map (\<lambda>p. [Content p, Silence d]) (q # qs))) = 2 * length (q # qs)"
        using Cons by simp
    next
      fix i assume "i < length (q # qs)"
      then show "concat (map (\<lambda>p. [Content p, Silence d]) (q # qs)) ! (2 * i)
                   = Content ((q # qs) ! i)"
        using Cons by (cases i) simp_all
    next
      fix i assume "i < length (q # qs)"
      then show "concat (map (\<lambda>p. [Content p, Silence d]) (q # qs)) ! (2 * i + 1) = Silence d"
        using Cons by (cases i) simp_all
    qed
  qed
  have pos: "0 < silence_duration \<Longrightarrow>
      length (filter silence_clip assembled) = length clips
      \<and> length assembled = 2 * length clips
      \<and> (\<forall>i < length clips.
            segment_of (assembled ! (2 * i)) = Some (Content (clips ! i))
            \<and> segment_of (assembled ! (2 * i + 1)) = Some (Silence silence_duration))"
  proof -
    assume p: "0 < silence_duration"
    let ?tl = "concat (map (\<lambda>p. [Content p, Silence silence_duration]) clips)"
    have tl: "spec_timeline silence_duration clips = ?tl"
      using p by (simp add: spec_timeline_def)
    have l2: "length assembled = 2 * length clips"
      using len tl inter [of silence_duration clips] by simp
    have nth: "segment_of (assembled ! j) = Some (?tl ! j)" if "j < 2 * length clips" for j
    proof -
      have "map segment_of assembled ! j = map Some ?tl ! j" using seg tl by simp
      then show ?thesis using that l2 inter [of silence_duration clips] by simp
    qed
    have "\<forall>i < length clips.
            segment_of (assembled ! (2 * i)) = Some (Content (clips ! i))
            \<and> segment_of (assembled ! (2 * i + 1)) = Some (Silence silence_duration)"
    proof (intro allI impI)
      fix i assume i: "i < length clips"
      then have "2 * i < 2 * length clips" "2 * i + 1 < 2 * length clips" by simp_all
      then show "segment_of (assembled ! (2 * i)) = Some (Content (clips ! i))
            \<and> segment_of (assembled ! (2 * i + 1)) = Some (Silence silence_duration)"
        using nth inter [of silence_duration clips] i by simp
    qed
    then show ?thesis using sil l2 p by simp
  qed
  show ?thesis using seg cnt zero pos by blast
qed

theorem assembled_clips_is_timeline_witness:
  "[''clips/abc123_clip.mp4'', ''clips/def456_clip.mp4''] \<noteq> [] \<and> (0::real) \<le> 1 \<and> (0::real) < 1
   \<and> fst (assemble_loop sample_engine 1 False
             [''clips/abc123_clip.mp4'', ''clips/def456_clip.mp4''] [] (initial_world {}))
       = Inr [Clip 0 (VideoFile ''clips/abc123_clip.mp4'') (Some 20) (640, 480),
              Clip 1 BlackFrames (Some 1) (640, 480),
              Clip 2 (VideoFile ''clips/def456_clip.mp4'') (Some 20) (640, 480),
              Clip 3 BlackFrames (Some 1) (640, 480)]
   \<and> map segment_of
         [Clip 0 (VideoFile ''clips/abc123_clip.mp4'') (Some 20) (640, 480),
          Clip 1 BlackFrames (Some 1) (640, 480),
          Clip 2 (VideoFile ''clips/def456_clip.mp4'') (Some 20) (640, 480),
          Clip 3 BlackFrames (Some 1) (640, 480)]
       = map Some (spec_timeline 1 [''clips/abc123_clip.mp4'', ''clips/def456_clip.mp4''])
   \<and> (0::real) \<le> 0
   \<and> fst (assemble_loop sample_engine 0 True
             [''clips/abc123_clip.mp3'', ''clips/def456_clip.mp3''] [] (initial_world {}))
       = Inr [Clip 0 (AudioFile ''clips/abc123_clip.mp3'') (Some 20) (0, 0),
              Clip 1 (AudioFile ''clips/def456_clip.mp3'') (Some 20) (0, 0)]
   \<and> filter silence_clip
         [Clip 0 (AudioFile ''clips/abc123_clip.mp3'') (Some 20) (0, 0),
          Clip 1 (AudioFile ''clips/def456_clip.mp3'') (Some 20) (0, 0)] = []"
proof -
  let ?v = "[''clips/abc123_clip.mp4'', ''clips/def456_clip.mp4'']"
  let ?a = "[''clips/abc123_clip.mp3'', ''clips/def456_clip.mp3'']"
  let ?X = "[Clip 0 (VideoFile ''clips/abc123_clip.mp4'') (Some 20) (640, 480),
             Clip 1 BlackFrames (Some 1) (640, 480),
             Clip 2 (VideoFile ''clips/def456_clip.mp4'') (Some 20) (640, 480),
             Clip 3 BlackFrames (Some 1) (640, 480)]"
  let ?Y = "[Clip 0 (AudioFile ''clips/abc123_clip.mp3'') (Some 20) (0, 0),
             Clip 1 (AudioFile ''clips/def456_clip.mp3'') (Some 20) (0, 0)]"
  have fx: "fst (assemble_loop sample_engine 1 False ?v [] (initial_world {})) = Inr ?X"
    by (simp add: run_defs sample_defs)
  have fy: "fst (assemble_loop sample_engine 0 True ?a [] (initial_world {})) = Inr ?Y"
    by (simp add: run_defs sample_defs)
  have rx: "assemble_loop sample_engine 1 False ?v [] (initial_world {})
              = (Inr ?X, snd (assemble_loop sample_engine 1 False ?v [] (initial_world {})))"
    using fx by (metis prod.collapse)
  have ry: "assemble_loop sample_engine 0 True ?a [] (initial_world {})
              = (Inr ?Y, snd (assemble_loop sample_engine 0 True ?a [] (initial_world {})))"
    using fy by (metis prod.collapse)
  have nv: "?v \<noteq> []" and na: "?a \<noteq> []" by simp_all
  have l1: "(0::real) \<le> 1" and l0: "(0::real) \<le> 0" and p1: "(0::real) < 1" by simp_all
  from assembled_clips_is_timeline [OF nv l1 rx]
  have 1: "map segment_of ?X = map Some (spec_timeline 1 ?v)" by blast
  from assembled_clips_is_timeline [OF na l0 ry]
  have 2: "filter silence_clip ?Y = []" by blast
  show ?thesis using nv l1 p1 l0 fx fy 1 2 by blast
qed

text \<open>
  C3. Neither stage reorders: the list \<^verbatim>\<open>clip_videos\<close> returns holds, item by item and
  in the order of its input, the excerpt file of each video; and the content elements of
  the list the loop of \<^verbatim>\<open>build_blindtest\<close> builds are, in order, the excerpt files it
  was given.
\<close>

theorem order_is_preserved:
  "(clip_videos E videos clip_duration output_dir start_strategy audio_only w = (Inr files, w1)
      \<longrightarrow> files = map (target_path output_dir audio_only) videos
          \<and> length files = length videos)
   \<and> (assemble_loop E silence_duration audio_only clips [] w = (Inr assembled, w2)
      \<longrightarrow> content_paths assembled = clips)"
proof (intro conjI impI)
  assume r: "clip_videos E videos clip_duration output_dir start_strategy audio_only w
               = (Inr files, w1)"
  then show "files = map (target_path output_dir audio_only) videos"
    by (rule clip_videos_result)
  then show "length files = length videos" by simp
next
  assume "assemble_loop E silence_duration audio_only clips [] w = (Inr assembled, w2)"
  from assemble_loop_adds [OF this] show "content_paths assembled = clips" by auto
qed

theorem order_is_preserved_witness:
  "fst (clip_videos sample_engine [video_b, video_a] 10 ''clips'' ''start'' False (initial_world {}))
     = Inr [''clips/def456_clip.mp4'', ''clips/abc123_clip.mp4'']
   \<and> [''clips/def456_clip.mp4'', ''clips/abc123_clip.mp4'']
       = map (target_path ''clips'' False) [video_b, video_a]
   \<and> fst (assemble_loop sample_engine 1 False
             [''clips/def456_clip.mp4'', ''clips/abc123_clip.mp4''] [] (initial_world {}))
       = Inr [Clip 0 (VideoFile ''clips/def456_clip.mp4'') (Some 20) (640, 480),
              Clip 1 BlackFrames (Some 1) (640, 480),
              Clip 2 (VideoFile ''clips/abc123_clip.mp4'') (Some 20) (640, 480),
              Clip 3 BlackFrames (Some 1) (640, 480)]
   \<and> content_paths
         [Clip 0 (VideoFile ''clips/def456_clip.mp4'') (Some 20) (640, 480),
          Clip 1 BlackFrames (Some 1) (640, 480),
          Clip 2 (VideoFile ''clips/abc123_clip.mp4'') (Some 20) (640, 480),
          Clip 3 BlackFrames (Some 1) (640, 480)]
       = [''clips/def456_clip.mp4'', ''clips/abc123_clip.mp4'']"
proof -
  let ?f = "[''clips/def456_clip.mp4'', ''clips/abc123_clip.mp4'']"
  let ?X = "[Clip 0 (VideoFile ''clips/def456_clip.mp4'') (Some 20) (640, 480),
             Clip 1 BlackFrames (Some 1) (640, 480),
             Clip 2 (VideoFile ''clips/abc123_clip.mp4'') (Some 20) (640, 480),
             Clip 3 BlackFrames (Some 1) (640, 480)]"
  let ?run = "clip_videos sample_engine [video_b, video_a] 10 ''clips'' ''start'' False
                (initial_world {})"
  let ?asm = "assemble_loop sample_engine 1 False ?f [] (initial_world {})"
  have fc: "fst ?run = Inr ?f"
    by (simp add: clip_videos_ok engine_ok_def target_path_eq path_join_def sample_defs)
  have fa: "fst ?asm = Inr ?X"
    by (simp add: run_defs sample_defs)
  have rc: "?run = (Inr ?f, snd ?run)" using fc by (metis prod.collapse)
  have ra: "?asm = (Inr ?X, snd ?asm)" using fa by (metis prod.collapse)
  from order_is_preserved [of sample_engine "[video_b, video_a]" 10 "''clips''" "''start''"
      False "initial_world {}" ?f "snd ?run" 1 ?f ?X "snd ?asm"] rc ra
  have "?f = map (target_path ''clips'' False) [video_b, video_a]"
    and "content_paths ?X = ?f"
    by blast+
  with fc fa show ?thesis by blast
qed


section \<open>The write path\<close>















section \<open>Handles\<close>

lemma clip_iteration_world:
  "clip_iteration E cd out strat ao clip gen w = (Inr files, w') \<Longrightarrow>
   next_handle w' = Suc (Suc (next_handle w))
   \<and> opened w' = insert (Suc (next_handle w)) (insert (next_handle w) (opened w))
                  - {next_handle w} - {Suc (next_handle w)}"
  by (auto simp: clip_iteration_def engine_defs subclip_def write_audiofile_def
        write_videofile_def close_def choose_start_def uniform_def
        split: if_splits option.splits)

lemma clip_iteration_opened:
  assumes "wf w" and "clip_iteration E cd out strat ao clip gen w = (Inr files, w')"
  shows "opened w' = opened w \<and> wf w'"
proof -
  from clip_iteration_world [OF assms(2)] have
    n: "next_handle w' = Suc (Suc (next_handle w))" and
    o: "opened w' = insert (Suc (next_handle w)) (insert (next_handle w) (opened w))
                  - {next_handle w} - {Suc (next_handle w)}"
    by simp_all
  have fresh: "next_handle w \<notin> opened w" "Suc (next_handle w) \<notin> opened w"
    using assms(1) by (auto simp: wf_def)
  have eq: "opened w' = opened w" using o fresh by auto
  have "wf w'" unfolding wf_def eq n using assms(1) by (auto simp: wf_def)
  with eq show ?thesis by simp
qed

lemma clip_loop_opened:
  "wf w \<Longrightarrow> clip_loop E cd out strat ao clips gen w = (Inr files, w') \<Longrightarrow>
   opened w' = opened w \<and> wf w'"
proof (induction clips arbitrary: gen w)
  case Nil
  then show ?case by simp
next
  case (Cons c cs)
  from Cons.prems(2) obtain g1 w1 where
    it: "clip_iteration E cd out strat ao c gen w = (Inr g1, w1)" and
    lp: "clip_loop E cd out strat ao cs g1 w1 = (Inr files, w')"
    by (auto split: prod.splits sum.splits)
  from clip_iteration_opened [OF Cons.prems(1) it] have 1: "opened w1 = opened w" "wf w1"
    by simp_all
  from Cons.IH [OF 1(2) lp] 1(1) show ?case by simp
qed

lemma mkdir_opened: "opened (mkdir p w) = opened w" "wf (mkdir p w) = wf w"
  by (simp_all add: mkdir_def log_def wf_def Let_def)

lemma clip_videos_opened:
  "wf w \<Longrightarrow> clip_videos E clips cd out strat ao w = (Inr files, w') \<Longrightarrow> opened w' = opened w"
  using clip_loop_opened [of "mkdir out w" E cd out strat ao clips "[]" files w']
  by (auto simp: clip_videos_def mkdir_opened Let_def split: if_splits)

lemma fold_close_opened:
  "opened (fold close cs w) = opened w - handle_of ` set cs"
  by (induction cs arbitrary: w) (auto simp: close_def log_def Let_def)

lemma render_opened:
  "render E ao cs out w = (Inr final, w') \<Longrightarrow>
   handle_of final = next_handle w \<and> opened w' = insert (next_handle w) (opened w)"
  by (auto simp: render_def concatenate_audioclips_def concatenate_videoclips_def
        write_audiofile_def write_videofile_def new_clip_def log_def Let_def
        split: if_splits)

lemma build_blindtest_opened:
  assumes wf: "wf w" and ok: "build_blindtest E clips out sd ao w = (Inr p, w')"
  shows "opened w' = opened w"
proof -
  let ?w1 = "mkdir (parent out) w"
  from ok obtain assembled w2 final w3 where
    lp: "assemble_loop E sd ao clips [] ?w1 = (Inr assembled, w2)" and
    rd: "render E ao assembled out w2 = (Inr final, w3)" and
    w': "w' = close final (fold close assembled w3)"
    by (auto simp: build_blindtest_def Let_def split: if_splits prod.splits sum.splits)
  from assemble_loop_adds [OF lp] have
    o2: "opened w2 = opened ?w1 \<union> handle_of ` set assembled" and
    lo: "\<forall>c \<in> set assembled. next_handle ?w1 \<le> handle_of c" and
    nx: "next_handle ?w1 \<le> next_handle w2"
    by auto
  from render_opened [OF rd] have
    f: "handle_of final = next_handle w2" and o3: "opened w3 = insert (next_handle w2) (opened w2)"
    by simp_all
  have fresh: "\<forall>h \<in> opened w. h < next_handle ?w1"
    using wf by (simp add: wf_def mkdir_def log_def Let_def)
  have "opened w' = (opened w3 - handle_of ` set assembled) - {handle_of final}"
    by (simp add: w' close_def log_def Let_def fold_close_opened)
  also have "\<dots> = opened w"
    using o2 o3 f lo nx fresh by (fastforce simp: mkdir_opened)
  finally show ?thesis .
qed

text \<open>
  C1 as the specification states it fails: the handles are not released on the failure
  path. On a disk that refuses the write, \<^verbatim>\<open>clip_videos\<close> leaves the source handle and
  the excerpt handle of the failing item open, and \<^verbatim>\<open>build_blindtest\<close> leaves the
  segment handles and the composed handle open; the traces end at the failed write and
  hold no close.
\<close>

theorem handles_stay_open_when_write_fails:
  "fst (clip_videos full_disk_engine [video_a] 10 ''clips'' ''start'' False (initial_world {}))
     = Inl ExternalError
   \<and> opened (snd (clip_videos full_disk_engine [video_a] 10 ''clips'' ''start'' False
                     (initial_world {}))) = {0, 1}
   \<and> opened (snd (clip_videos full_disk_engine [video_a] 10 ''clips'' ''start'' False
                     (initial_world {}))) \<noteq> opened (initial_world {})
   \<and> trace (snd (clip_videos full_disk_engine [video_a] 10 ''clips'' ''start'' False
                    (initial_world {})))
       = [EvMkdir ''clips'', EvOpenVideo ''downloads/abc123.mp4'', EvSubclip 0 0 10,
          EvWriteVideo 1 ''clips/abc123_clip.mp4'']
   \<and> fst (build_blindtest full_disk_engine [''clips/abc123_clip.mp4''] ''blindtest.mp4'' 1 False
            (initial_world {})) = Inl ExternalError
   \<and> opened (snd (build_blindtest full_disk_engine [''clips/abc123_clip.mp4'']
                     ''blindtest.mp4'' 1 False (initial_world {}))) = {0, 1, 2}
   \<and> opened (snd (build_blindtest full_disk_engine [''clips/abc123_clip.mp4'']
                     ''blindtest.mp4'' 1 False (initial_world {}))) \<noteq> opened (initial_world {})
   \<and> trace (snd (build_blindtest full_disk_engine [''clips/abc123_clip.mp4''] ''blindtest.mp4''
                    1 False (initial_world {})))
       = [EvMkdir ''.'', EvOpenVideo ''clips/abc123_clip.mp4'', EvColor (640, 480) 1,
          EvConcatVideo [0, 1], EvWriteVideo 2 ''blindtest.mp4'']"
  by (auto simp: run_defs sample_defs target_path_eq path_join_def parent_def)

text \<open>
  C1, amended. On every call that returns normally the handles opened for it are released
  by the time it returns: each turn of the loop of \<^verbatim>\<open>clip_videos\<close> closes the source
  handle and the excerpt handle it opened before it ends, so the whole call leaves the
  set of open handles as it found it; and \<^verbatim>\<open>build_blindtest\<close> closes every segment
  handle and the composed handle after the render.
\<close>

theorem handles_released_on_normal_return:
  assumes "wf w"
  shows "(clip_iteration E clip_duration output_dir start_strategy audio_only clip generated w
            = (Inr generated1, w1) \<longrightarrow> opened w1 = opened w)
    \<and> (clip_videos E videos clip_duration output_dir start_strategy audio_only w
            = (Inr files, w2) \<longrightarrow> opened w2 = opened w)
    \<and> (build_blindtest E clips output_path silence_duration audio_only w
            = (Inr p, w3) \<longrightarrow> opened w3 = opened w)"
proof (intro conjI impI)
  assume "clip_iteration E clip_duration output_dir start_strategy audio_only clip generated w
            = (Inr generated1, w1)"
  from clip_iteration_opened [OF assms this] show "opened w1 = opened w" by simp
next
  assume "clip_videos E videos clip_duration output_dir start_strategy audio_only w
            = (Inr files, w2)"
  from clip_videos_opened [OF assms this] show "opened w2 = opened w" .
next
  assume "build_blindtest E clips output_path silence_duration audio_only w = (Inr p, w3)"
  from build_blindtest_opened [OF assms this] show "opened w3 = opened w" .
qed

theorem handles_released_on_normal_return_witness:
  "wf (initial_world {})
   \<and> fst (clip_iteration sample_engine 10 ''clips'' ''start'' False video_a [] (initial_world {}))
       = Inr [''clips/abc123_clip.mp4'']
   \<and> opened (snd (clip_iteration sample_engine 10 ''clips'' ''start'' False video_a []
                     (initial_world {}))) = {}
   \<and> fst (clip_videos sample_engine [video_a, video_b] 10 ''clips'' ''start'' False
            (initial_world {}))
       = Inr [''clips/abc123_clip.mp4'', ''clips/def456_clip.mp4'']
   \<and> opened (snd (clip_videos sample_engine [video_a, video_b] 10 ''clips'' ''start'' False
                     (initial_world {}))) = {}
   \<and> fst (build_blindtest sample_engine [''clips/abc123_clip.mp4'', ''clips/def456_clip.mp4'']
            ''blindtest.mp4'' 1 False (initial_world {})) = Inr ''blindtest.mp4''
   \<and> opened (snd (build_blindtest sample_engine
         [''clips/abc123_clip.mp4'', ''clips/def456_clip.mp4''] ''blindtest.mp4'' 1 False
         (initial_world {}))) = {}"
proof -
  let ?f = "[''clips/abc123_clip.mp4'', ''clips/def456_clip.mp4'']"
  let ?it = "clip_iteration sample_engine 10 ''clips'' ''start'' False video_a [] (initial_world {})"
  let ?run = "clip_videos sample_engine [video_a, video_b] 10 ''clips'' ''start'' False
                (initial_world {})"
  let ?build = "build_blindtest sample_engine ?f ''blindtest.mp4'' 1 False (initial_world {})"
  have wf0: "wf (initial_world {})" by (simp add: wf_def initial_world_def)
  have o0: "opened (initial_world {}) = {}" by (simp add: initial_world_def)
  have fi: "fst ?it = Inr [''clips/abc123_clip.mp4'']"
    by (simp add: clip_iteration_ok engine_ok_def target_path_eq path_join_def sample_defs)
  have fc: "fst ?run = Inr ?f"
    by (simp add: clip_videos_ok engine_ok_def target_path_eq path_join_def sample_defs)
  have fb: "fst ?build = Inr ''blindtest.mp4''"
    by (simp add: run_defs sample_defs)
  have ri: "?it = (Inr [''clips/abc123_clip.mp4''], snd ?it)" using fi by (metis prod.collapse)
  have rc: "?run = (Inr ?f, snd ?run)" using fc by (metis prod.collapse)
  have rb: "?build = (Inr ''blindtest.mp4'', snd ?build)" using fb by (metis prod.collapse)
  note inst = handles_released_on_normal_return [OF wf0, of sample_engine 10 "''clips''" "''start''"
      False video_a "[]" "[''clips/abc123_clip.mp4'']" "snd ?it" "[video_a, video_b]" ?f
      "snd ?run" ?f "''blindtest.mp4''" 1 "''blindtest.mp4''" "snd ?build"]
  from inst ri o0 have 1: "opened (snd ?it) = {}" by simp
  from inst rc o0 have 2: "opened (snd ?run) = {}" by simp
  from inst rb o0 have 3: "opened (snd ?build) = {}" by simp
  show ?thesis using wf0 fi fc fb 1 2 3 by blast
qed

section \<open>The orchestrator\<close>

lemma rmtree_removes:
  "rmtree E d w = (Inr u, w') \<Longrightarrow> d \<notin> fs w' \<and> fs w' \<subseteq> fs w"
  by (auto simp: rmtree_def below_def log_def Let_def split: if_splits)

lemma cleanup_removes:
  assumes "fst (cleanup E download_dir clips_dir w) = Inr ()"
  shows "download_dir \<notin> fs (snd (cleanup E download_dir clips_dir w))
    \<and> clips_dir \<notin> fs (snd (cleanup E download_dir clips_dir w))"
proof -
  obtain r1 w1 where
    f: "(if download_dir \<in> fs w then rmtree E download_dir w else (Inr (), w)) = (r1, w1)"
    by (cases "if download_dir \<in> fs w then rmtree E download_dir w else (Inr (), w)")
  from assms f have r1: "r1 = Inr ()"
    by (cases r1) (simp_all add: cleanup_def)
  have d1: "download_dir \<notin> fs w1"
    using f r1 rmtree_removes [of E download_dir w "()" w1] by (auto split: if_splits)
  obtain r2 w2 where
    s: "(if clips_dir \<in> fs w1 then rmtree E clips_dir w1 else (Inr (), w1)) = (r2, w2)"
    by (cases "if clips_dir \<in> fs w1 then rmtree E clips_dir w1 else (Inr (), w1)")
  have c: "cleanup E download_dir clips_dir w = (r2, w2)"
    using f r1 s by (simp add: cleanup_def)
  with assms have r2: "r2 = Inr ()" by simp
  have "clips_dir \<notin> fs w2 \<and> fs w2 \<subseteq> fs w1"
    using s r2 rmtree_removes [of E clips_dir w1 "()" w2] by (auto split: if_splits)
  with d1 c show ?thesis by auto
qed

text \<open>The \<^verbatim>\<open>finally\<close> block does not raise when both directories can be removed.\<close>

lemma cleanup_ok:
  "\<not> rmtree_fails E download_dir \<Longrightarrow> \<not> rmtree_fails E clips_dir \<Longrightarrow>
   fst (cleanup E download_dir clips_dir w) = Inr ()"
  by (simp add: cleanup_def rmtree_def Let_def)

lemma main_world:
  "snd (main fetch E a w) =
     snd (cleanup E (args_downloads a) (args_clips a)
            (snd (pipeline fetch E a (args_downloads a) (args_clips a) w)))"
  by (simp add: main_def Let_def split: prod.splits sum.splits)

lemma main_code:
  "fst (main fetch E a w) =
     (case fst (cleanup E (args_downloads a) (args_clips a)
                  (snd (pipeline fetch E a (args_downloads a) (args_clips a) w))) of
        Inl e \<Rightarrow> Inl e
      | Inr u \<Rightarrow>
          (case fst (pipeline fetch E a (args_downloads a) (args_clips a) w) of
             Inr code \<Rightarrow> Inr code
           | Inl e \<Rightarrow> if caught e then Inr 1 else Inl e))"
proof -
  obtain r w1 where p: "pipeline fetch E a (args_downloads a) (args_clips a) w = (r, w1)"
    by (cases "pipeline fetch E a (args_downloads a) (args_clips a) w")
  obtain c w2 where c: "cleanup E (args_downloads a) (args_clips a) w1 = (c, w2)"
    by (cases "cleanup E (args_downloads a) (args_clips a) w1")
  show ?thesis
    by (cases c) (simp_all add: main_def Let_def p c)
qed

lemma pipeline_code:
  "fst (pipeline fetch E a d c w) = Inr code \<Longrightarrow> code = 0"
  by (auto simp: pipeline_def split: prod.splits sum.splits)

text \<open>The only exception the \<^verbatim>\<open>finally\<close> block can raise is one of the operating system.\<close>

lemma cleanup_raises_external:
  "fst (cleanup E download_dir clips_dir w) = Inl e \<Longrightarrow> e = ExternalError"
  by (auto simp: cleanup_def rmtree_def Let_def split: if_splits)

text \<open>An exception of the media engine or the operating system is not caught: it leaves
  \<^verbatim>\<open>main\<close>, after the \<^verbatim>\<open>finally\<close> block has run.\<close>

lemma main_propagates_external_error:
  "fst (pipeline fetch E a (args_downloads a) (args_clips a) w) = Inl ExternalError \<Longrightarrow>
   fst (main fetch E a w) = Inl ExternalError"
  using cleanup_raises_external
  by (auto simp: main_code split: sum.splits)

text \<open>
  C9 as the specification states it fails: the removal is not guaranteed on every exit
  path. When \<^verbatim>\<open>shutil.rmtree\<close> raises on the download path (here a regular file named
  \<^verbatim>\<open>downloads\<close>) after the download stage has raised \<^verbatim>\<open>VideoRetrievalError\<close>, the
  exception of the \<^verbatim>\<open>finally\<close> block leaves \<^verbatim>\<open>main\<close> in place of the exit code 1, and the
  clips directory is never looked at: both paths still exist.
\<close>

theorem failed_rmtree_skips_clips_and_exit_code:
  "fst (pipeline empty_fetch downloads_is_file_engine sample_args ''downloads'' ''clips''
          (initial_world {''downloads'', ''clips''}))
     = Inl (VideoRetrievalError ''No videos were returned by the YouTube API'')
   \<and> main empty_fetch downloads_is_file_engine sample_args
        (initial_world {''downloads'', ''clips''})
     = (Inl ExternalError,
        \<lparr>fs = {''downloads'', ''clips''}, opened = {}, next_handle = 0, draws = 0,
         trace = [EvRmtree ''downloads'']\<rparr>)
   \<and> ''clips'' \<in> fs (snd (main empty_fetch downloads_is_file_engine sample_args
                            (initial_world {''downloads'', ''clips''})))
   \<and> fst (main empty_fetch downloads_is_file_engine sample_args
            (initial_world {''downloads'', ''clips''})) \<noteq> Inr 1"
  by (simp add: main_def pipeline_def cleanup_def rmtree_def log_def Let_def empty_fetch_def
        sample_args_def sample_defs)

text \<open>
  C9, amended. Whatever the three stages do, the \<^verbatim>\<open>finally\<close> block runs; whenever it does
  not raise itself (no \<^verbatim>\<open>shutil.rmtree\<close> call in it raises), neither the download directory
  nor the clips directory exists when \<^verbatim>\<open>main\<close> is left, and \<^verbatim>\<open>main\<close> returns 0 when the
  three stages succeed and 1 when one of them raises \<^verbatim>\<open>VideoRetrievalError\<close>,
  \<^verbatim>\<open>ClipGenerationError\<close> or \<^verbatim>\<open>AssemblyError\<close>.
\<close>

theorem main_cleans_up_and_reports:
  assumes "fst (cleanup E (args_downloads a) (args_clips a)
                  (snd (pipeline fetch E a (args_downloads a) (args_clips a) w))) = Inr ()"
  shows "args_downloads a \<notin> fs (snd (main fetch E a w))
   \<and> args_clips a \<notin> fs (snd (main fetch E a w))
   \<and> (fst (pipeline fetch E a (args_downloads a) (args_clips a) w) = Inr code
        \<longrightarrow> fst (main fetch E a w) = Inr 0)
   \<and> (fst (pipeline fetch E a (args_downloads a) (args_clips a) w) = Inl (VideoRetrievalError m)
        \<longrightarrow> fst (main fetch E a w) = Inr 1)
   \<and> (fst (pipeline fetch E a (args_downloads a) (args_clips a) w) = Inl (ClipGenerationError m)
        \<longrightarrow> fst (main fetch E a w) = Inr 1)
   \<and> (fst (pipeline fetch E a (args_downloads a) (args_clips a) w) = Inl (AssemblyError m)
        \<longrightarrow> fst (main fetch E a w) = Inr 1)"
  using assms cleanup_removes [OF assms]
    pipeline_code [of fetch E a "args_downloads a" "args_clips a" w code]
  by (simp add: main_world main_code)

theorem main_cleans_up_and_reports_witness:
  "fst (cleanup sample_engine ''downloads'' ''clips''
          (snd (pipeline sample_fetch sample_engine sample_args ''downloads'' ''clips''
                  (initial_world {})))) = Inr ()
   \<and> fst (pipeline sample_fetch sample_engine sample_args ''downloads'' ''clips'' (initial_world {}))
       = Inr 0
   \<and> fst (main sample_fetch sample_engine sample_args (initial_world {})) = Inr 0
   \<and> ''downloads'' \<notin> fs (snd (main sample_fetch sample_engine sample_args (initial_world {})))
   \<and> ''clips'' \<notin> fs (snd (main sample_fetch sample_engine sample_args (initial_world {})))
   \<and> fst (pipeline empty_fetch sample_engine sample_args ''downloads'' ''clips'' (initial_world {}))
       = Inl (VideoRetrievalError ''No videos were returned by the YouTube API'')
   \<and> fst (main empty_fetch sample_engine sample_args (initial_world {})) = Inr 1
   \<and> fst (pipeline sample_fetch sample_engine (sample_args\<lparr>args_clip_duration := 0\<rparr>)
            ''downloads'' ''clips'' (initial_world {}))
       = Inl (ClipGenerationError ''clip_duration must be a positive number'')
   \<and> fst (main sample_fetch sample_engine (sample_args\<lparr>args_clip_duration := 0\<rparr>)
            (initial_world {})) = Inr 1
   \<and> ''downloads'' \<notin> fs (snd (main sample_fetch sample_engine
                                (sample_args\<lparr>args_clip_duration := 0\<rparr>) (initial_world {})))
   \<and> fst (pipeline sample_fetch sample_engine (sample_args\<lparr>args_silence_duration := - 1\<rparr>)
            ''downloads'' ''clips'' (initial_world {}))
       = Inl (AssemblyError ''silence_duration must be zero or greater'')
   \<and> fst (main sample_fetch sample_engine (sample_args\<lparr>args_silence_duration := - 1\<rparr>)
            (initial_world {})) = Inr 1
   \<and> ''clips'' \<notin> fs (snd (main sample_fetch sample_engine
                            (sample_args\<lparr>args_silence_duration := - 1\<rparr>) (initial_world {})))"
proof -
  let ?w = "initial_world {}"
  let ?a0 = "sample_args\<lparr>args_clip_duration := 0\<rparr>"
  let ?a1 = "sample_args\<lparr>args_silence_duration := - 1\<rparr>"
  have d: "args_downloads sample_args = ''downloads''" "args_clips sample_args = ''clips''"
    "args_downloads ?a0 = ''downloads''" "args_clips ?a0 = ''clips''"
    "args_downloads ?a1 = ''downloads''" "args_clips ?a1 = ''clips''"
    by (simp_all add: sample_args_def)
  have ok: "fst (cleanup sample_engine ''downloads'' ''clips'' w) = Inr ()" for w
    by (rule cleanup_ok) (simp_all add: sample_defs)
  have p1: "fst (pipeline sample_fetch sample_engine sample_args ''downloads'' ''clips'' ?w)
              = Inr 0"
    by (simp add: pipeline_def sample_fetch_def sample_args_def run_defs sample_defs
          target_path_eq path_join_def parent_def)
  have p2: "fst (pipeline empty_fetch sample_engine sample_args ''downloads'' ''clips'' ?w)
              = Inl (VideoRetrievalError ''No videos were returned by the YouTube API'')"
    by (simp add: pipeline_def empty_fetch_def)
  have p3: "fst (pipeline sample_fetch sample_engine ?a0 ''downloads'' ''clips'' ?w)
              = Inl (ClipGenerationError ''clip_duration must be a positive number'')"
    by (simp add: pipeline_def sample_fetch_def sample_args_def clip_videos_def)
  have p4: "fst (pipeline sample_fetch sample_engine ?a1 ''downloads'' ''clips'' ?w)
              = Inl (AssemblyError ''silence_duration must be zero or greater'')"
    by (simp add: pipeline_def sample_fetch_def sample_args_def run_defs sample_defs
          target_path_eq path_join_def parent_def)
  note i1 = main_cleans_up_and_reports [of sample_engine sample_args sample_fetch ?w 0,
      unfolded d, OF ok]
  note i2 = main_cleans_up_and_reports [of sample_engine sample_args empty_fetch ?w _
      "''No videos were returned by the YouTube API''", unfolded d, OF ok]
  note i3 = main_cleans_up_and_reports [of sample_engine ?a0 sample_fetch ?w _
      "''clip_duration must be a positive number''", unfolded d, OF ok]
  note i4 = main_cleans_up_and_reports [of sample_engine ?a1 sample_fetch ?w _
      "''silence_duration must be zero or greater''", unfolded d, OF ok]
  show ?thesis using ok p1 p2 p3 p4 i1 i2 i3 i4 by blast
qed

end
